theory Spec2Isabelle
  imports Main
begin

section \<open>JavaScript values\<close>

text \<open>
  A property of a JavaScript object is a value, \<^verbatim>\<open>null\<close> or \<^verbatim>\<open>undefined\<close>
  (an omitted property reads as \<^verbatim>\<open>undefined\<close>). The validation library tells the
  three apart, so the model does too.
\<close>

datatype 'a js = Undefined | Null | Val 'a

definition isAbsent :: "'a js \<Rightarrow> bool" where
  "isAbsent v = (case v of Val _ \<Rightarrow> False | _ \<Rightarrow> True)"

text \<open>\<^verbatim>\<open>Date | null\<close> and \<^verbatim>\<open>promo_code?: string\<close> of the TypeScript types.\<close>

definition of_nullable :: "'a option \<Rightarrow> 'a js" where
  "of_nullable v = (case v of None \<Rightarrow> Null | Some x \<Rightarrow> Val x)"

definition of_optional :: "'a option \<Rightarrow> 'a js" where
  "of_optional v = (case v of None \<Rightarrow> Undefined | Some x \<Rightarrow> Val x)"

subsection \<open>Dates\<close>

text \<open>
  A \<^verbatim>\<open>Date\<close> is its time value: milliseconds since the epoch, in UTC. The date
  picker hands the form valid dates only, and the time value of a valid date is an
  integer. The calendar fields are read in local time: \<open>LocalTime\<close>, \<open>Day\<close>,
  \<open>YearFromTime\<close>, \<open>MonthFromTime\<close> and \<open>DateFromTime\<close> are the abstract
  operations of the language standard, and the offset of the host's time zone at a
  given instant is a parameter. \<open>Day\<close> drops the time within the day, and the
  three calendar fields are read from the day number alone.
\<close>

datatype Date = Date (getTime: int)

type_synonym timezone = "int \<Rightarrow> int"

definition msPerDay :: int where
  "msPerDay = 86400000"

definition LocalTime :: "timezone \<Rightarrow> int \<Rightarrow> int" where
  "LocalTime tz t = t + tz t"

definition Day :: "int \<Rightarrow> int" where
  "Day t = t div msPerDay"

text \<open>
  Year, zero-based month and day of the month of a day number (days since
  1970-01-01) in the proleptic Gregorian calendar, computed over 400-year eras
  that start on 1 March.
\<close>

definition civil_from_days :: "int \<Rightarrow> int \<times> int \<times> int" where
  "civil_from_days n =
     (let z = n + 719468;
          era = z div 146097;
          doe = z mod 146097;
          yoe = (doe - doe div 1460 + doe div 36524 - doe div 146096) div 365;
          doy = doe - (365 * yoe + yoe div 4 - yoe div 100);
          mp = (5 * doy + 2) div 153;
          d = doy - (153 * mp + 2) div 5 + 1;
          m = (if mp < 10 then mp + 3 else mp - 9);
          y = yoe + era * 400 + (if m \<le> 2 then 1 else 0)
      in (y, m - 1, d))"

definition YearFromTime :: "int \<Rightarrow> int" where
  "YearFromTime t = fst (civil_from_days (Day t))"

definition MonthFromTime :: "int \<Rightarrow> int" where
  "MonthFromTime t = fst (snd (civil_from_days (Day t)))"

definition DateFromTime :: "int \<Rightarrow> int" where
  "DateFromTime t = snd (snd (civil_from_days (Day t)))"

definition getFullYear :: "timezone \<Rightarrow> Date \<Rightarrow> int" where
  "getFullYear tz d = YearFromTime (LocalTime tz (getTime d))"

definition getMonth :: "timezone \<Rightarrow> Date \<Rightarrow> int" where
  "getMonth tz d = MonthFromTime (LocalTime tz (getTime d))"

definition getDate :: "timezone \<Rightarrow> Date \<Rightarrow> int" where
  "getDate tz d = DateFromTime (LocalTime tz (getTime d))"

text \<open>
  \<^verbatim>\<open>value >= limit\<close> with a date on the left: both sides become numbers, a date its
  time value, \<^verbatim>\<open>null\<close> zero and \<^verbatim>\<open>undefined\<close> NaN, which compares false.
\<close>

definition date_ge :: "Date \<Rightarrow> Date js \<Rightarrow> bool" where
  "date_ge v limit =
     (case limit of
        Val d \<Rightarrow> getTime d \<le> getTime v
      | Null \<Rightarrow> 0 \<le> getTime v
      | Undefined \<Rightarrow> False)"

subsection \<open>Regular expressions\<close>

text \<open>
  The fragment of regular expressions the form uses: the anchors \<^verbatim>\<open>^\<close> and \<^verbatim>\<open>$\<close>
  (no flags, so start and end of the whole input) and a character class of ranges
  repeated between \<open>lo\<close> and \<open>hi\<close> times. A string is a list of characters; the
  class holds ASCII ranges only, so a character outside ASCII never matches.
\<close>

datatype regex_item = Bol | Eol | ClassRep "(char \<times> char) list" nat nat

type_synonym regex = "regex_item list"

definition in_class :: "(char \<times> char) list \<Rightarrow> char \<Rightarrow> bool" where
  "in_class rs c =
     list_ex (\<lambda>(lo, hi). (of_char lo :: nat) \<le> of_char c \<and> (of_char c :: nat) \<le> of_char hi) rs"

definition class_run :: "(char \<times> char) list \<Rightarrow> string \<Rightarrow> nat \<Rightarrow> nat" where
  "class_run rs s i = length (takeWhile (in_class rs) (drop i s))"

text \<open>
  \<open>match_here r s i\<close>: the pattern matches at position \<open>i\<close> of \<open>s\<close>. A repetition
  may stop after any count from \<open>lo\<close> up to \<open>hi\<close> that the run of class characters
  at \<open>i\<close> allows (the matcher backtracks over them).
\<close>

fun match_here :: "regex \<Rightarrow> string \<Rightarrow> nat \<Rightarrow> bool" where
  "match_here [] s i = True"
| "match_here (Bol # r) s i = (i = 0 \<and> match_here r s i)"
| "match_here (Eol # r) s i = (i = length s \<and> match_here r s i)"
| "match_here (ClassRep rs lo hi # r) s i =
     list_ex (\<lambda>k. match_here r s (i + k)) [lo ..< Suc (min hi (class_run rs s i))]"

text \<open>\<^verbatim>\<open>String.prototype.search\<close>: the first position with a match, or \<open>-1\<close>.\<close>

definition search :: "regex \<Rightarrow> string \<Rightarrow> int" where
  "search r s =
     (case find (match_here r s) [0 ..< Suc (length s)] of
        None \<Rightarrow> - 1
      | Some i \<Rightarrow> int i)"

section \<open>The booking data\<close>

text \<open>
  The interfaces of the context. The \<^verbatim>\<open>id\<close> of a room is \<open>id'\<close> here; its price
  is a number the form only displays.
\<close>

record Room =
  id' :: string
  name :: string
  price :: int
  description :: string

record BookingFormData =
  guest_name :: string
  room_id :: string
  check_in_date :: "Date option"
  check_out_date :: "Date option"
  promo_code :: "string option"

definition initialFormData :: BookingFormData where
  "initialFormData =
     \<lparr>guest_name = '''', room_id = '''', check_in_date = None, check_out_date = None,
      promo_code = Some ''''\<rparr>"

section \<open>The validation library\<close>

text \<open>
  The schema is built with yup and run by react-hook-form through the yup resolver.
  A schema is a specification (may the value be \<^verbatim>\<open>null\<close>, may it be
  \<^verbatim>\<open>undefined\<close>) and a list of named tests; each builder of a chain returns the
  schema changed. The package manifest that fixes the release of yup is not among
  the sources, and the two release lines treat \<^verbatim>\<open>required\<close> differently, so the
  release is a parameter:
  \<^item> in 0.32, \<^verbatim>\<open>required\<close> adds a test that fails for \<^verbatim>\<open>null\<close> and
    \<^verbatim>\<open>undefined\<close> (for a string also for the empty string), and \<^verbatim>\<open>nullable\<close>
    concerns the type check only;
  \<^item> in 1.x, \<^verbatim>\<open>required\<close> marks the schema as neither nullable nor optional (and
    adds the non-empty test to a string), and a later \<^verbatim>\<open>nullable\<close> marks it
    nullable again.
  A message is \<open>None\<close> where the schema names none and the library would use its
  locale's text.
\<close>

datatype yup_release = Yup_0_32 | Yup_1

record ('p, 'v) yup_test =
  test_name :: string
  test_message :: string
  test_fn :: "'p \<Rightarrow> 'v js \<Rightarrow> bool"

record ('p, 'v) yup_schema =
  nullable_spec :: bool
  optional_spec :: bool
  null_message :: "string option"
  undefined_message :: "string option"
  tests :: "('p, 'v) yup_test list"

record FieldError =
  type :: string
  message :: "string option"

text \<open>\<^verbatim>\<open>yup.string()\<close>, \<^verbatim>\<open>yup.date()\<close>: nothing is required, \<^verbatim>\<open>null\<close> is not a value.\<close>

definition yup_mixed :: "('p, 'v) yup_schema" where
  "yup_mixed =
     \<lparr>nullable_spec = False, optional_spec = True, null_message = None,
      undefined_message = None, tests = []\<rparr>"

definition yup_string :: "('p, string) yup_schema" where
  "yup_string = yup_mixed"

definition yup_date :: "('p, Date) yup_schema" where
  "yup_date = yup_mixed"

text \<open>An exclusive test replaces the tests of its name; any other test is appended.\<close>

definition add_test :: "bool \<Rightarrow> ('p, 'v) yup_test \<Rightarrow> ('p, 'v) yup_schema \<Rightarrow> ('p, 'v) yup_schema" where
  "add_test exclusive t S =
     S\<lparr>tests := (if exclusive then filter (\<lambda>u. test_name u \<noteq> test_name t) (tests S)
                 else tests S) @ [t]\<rparr>"

definition required :: "yup_release \<Rightarrow> string \<Rightarrow> ('p, 'v) yup_schema \<Rightarrow> ('p, 'v) yup_schema" where
  "required rel msg S =
     (case rel of
        Yup_0_32 \<Rightarrow>
          add_test True
            \<lparr>test_name = ''required'', test_message = msg, test_fn = (\<lambda>_ v. \<not> isAbsent v)\<rparr> S
      | Yup_1 \<Rightarrow>
          S\<lparr>nullable_spec := False, null_message := Some msg,
            optional_spec := False, undefined_message := Some msg\<rparr>)"

definition string_required :: "yup_release \<Rightarrow> string \<Rightarrow> ('p, string) yup_schema \<Rightarrow> ('p, string) yup_schema" where
  "string_required rel msg S =
     (case rel of
        Yup_0_32 \<Rightarrow>
          add_test True
            \<lparr>test_name = ''required'', test_message = msg,
             test_fn = (\<lambda>_ v. case v of Val s \<Rightarrow> s \<noteq> [] | _ \<Rightarrow> False)\<rparr> S
      | Yup_1 \<Rightarrow>
          add_test False
            \<lparr>test_name = ''required'', test_message = msg,
             test_fn = (\<lambda>_ v. case v of Val s \<Rightarrow> s \<noteq> [] | _ \<Rightarrow> True)\<rparr>
            (required Yup_1 msg S))"

definition nullable :: "('p, 'v) yup_schema \<Rightarrow> ('p, 'v) yup_schema" where
  "nullable S = S\<lparr>nullable_spec := True\<rparr>"

definition optional :: "yup_release \<Rightarrow> ('p, 'v) yup_schema \<Rightarrow> ('p, 'v) yup_schema" where
  "optional rel S =
     (case rel of
        Yup_0_32 \<Rightarrow> S\<lparr>tests := filter (\<lambda>u. test_name u \<noteq> ''required'') (tests S)\<rparr>
      | Yup_1 \<Rightarrow> S\<lparr>optional_spec := True\<rparr>)"

text \<open>
  \<^verbatim>\<open>matches(regex, message)\<close>: with a message in place of an options object the
  empty string is not excluded, so it is searched like any other string; only
  \<^verbatim>\<open>null\<close> and \<^verbatim>\<open>undefined\<close> skip the test.
\<close>

definition matches :: "regex \<Rightarrow> string \<Rightarrow> ('p, string) yup_schema \<Rightarrow> ('p, string) yup_schema" where
  "matches re msg S =
     add_test False
       \<lparr>test_name = ''matches'', test_message = msg,
        test_fn = (\<lambda>_ v. case v of Val s \<Rightarrow> search re s \<noteq> - 1 | _ \<Rightarrow> True)\<rparr> S"

text \<open>
  \<^verbatim>\<open>min(ref, message)\<close> of a date schema: \<^verbatim>\<open>value >= this.resolve(limit)\<close>, the
  reference read from the object under validation.
\<close>

definition min_date :: "('p \<Rightarrow> Date js) \<Rightarrow> string \<Rightarrow> ('p, Date) yup_schema \<Rightarrow> ('p, Date) yup_schema" where
  "min_date ref msg S =
     add_test True
       \<lparr>test_name = ''min'', test_message = msg,
        test_fn = (\<lambda>parent v. case v of Val d \<Rightarrow> date_ge d (ref parent) | _ \<Rightarrow> True)\<rparr> S"

text \<open>
  Validating one value, \<^verbatim>\<open>abortEarly: false\<close>: the checks of the specification
  first, and the tests only when those pass; every failing test is reported, in
  the order of the chain.
\<close>

definition validate_value :: "yup_release \<Rightarrow> ('p, 'v) yup_schema \<Rightarrow> 'p \<Rightarrow> 'v js \<Rightarrow> FieldError list" where
  "validate_value rel S parent v =
     (if v = Null \<and> \<not> nullable_spec S then
        (case rel of
           Yup_0_32 \<Rightarrow> [\<lparr>type = ''typeError'', message = None\<rparr>]
         | Yup_1 \<Rightarrow> [\<lparr>type = ''nullable'', message = null_message S\<rparr>])
      else if v = Undefined \<and> \<not> optional_spec S then
        [\<lparr>type = ''optionality'', message = undefined_message S\<rparr>]
      else
        map (\<lambda>t. \<lparr>type = test_name t, message = Some (test_message t)\<rparr>)
          (filter (\<lambda>t. \<not> test_fn t parent v) (tests S)))"

section \<open>The schema of the booking form\<close>

definition promo_code_regex :: regex where
  "promo_code_regex = [Bol, ClassRep [(CHR ''A'', CHR ''Z''), (CHR ''0'', CHR ''9'')] 6 10, Eol]"

definition guest_name_schema :: "yup_release \<Rightarrow> (BookingFormData, string) yup_schema" where
  "guest_name_schema rel = string_required rel ''Guest name is required'' yup_string"

definition room_id_schema :: "yup_release \<Rightarrow> (BookingFormData, string) yup_schema" where
  "room_id_schema rel = string_required rel ''Please select a room'' yup_string"

definition check_in_date_schema :: "yup_release \<Rightarrow> (BookingFormData, Date) yup_schema" where
  "check_in_date_schema rel = nullable (required rel ''Check-in date is required'' yup_date)"

definition check_out_date_schema :: "yup_release \<Rightarrow> (BookingFormData, Date) yup_schema" where
  "check_out_date_schema rel =
     nullable
       (required rel ''Check-out date is required''
         (min_date (\<lambda>parent. of_nullable (check_in_date parent))
            ''Check-out date must be after check-in date'' yup_date))"

definition promo_code_schema :: "yup_release \<Rightarrow> (BookingFormData, string) yup_schema" where
  "promo_code_schema rel =
     matches promo_code_regex
       ''Promo code must be uppercase alphanumeric and between 6-10 characters''
       (optional rel yup_string)"

text \<open>
  The errors of each field of the form values, and what the resolver makes of them
  for react-hook-form: the fields in the order of the schema, each with the first
  of its errors.
\<close>

definition field_errors :: "yup_release \<Rightarrow> BookingFormData \<Rightarrow> string \<Rightarrow> FieldError list" where
  "field_errors rel data field =
     (if field = ''guest_name'' then
        validate_value rel (guest_name_schema rel) data (Val (guest_name data))
      else if field = ''room_id'' then
        validate_value rel (room_id_schema rel) data (Val (room_id data))
      else if field = ''check_in_date'' then
        validate_value rel (check_in_date_schema rel) data (of_nullable (check_in_date data))
      else if field = ''check_out_date'' then
        validate_value rel (check_out_date_schema rel) data (of_nullable (check_out_date data))
      else if field = ''promo_code'' then
        validate_value rel (promo_code_schema rel) data (of_optional (promo_code data))
      else [])"

definition schema_fields :: "string list" where
  "schema_fields = [''guest_name'', ''room_id'', ''check_in_date'', ''check_out_date'', ''promo_code'']"

definition yupResolver :: "yup_release \<Rightarrow> BookingFormData \<Rightarrow> (string \<times> FieldError) list" where
  "yupResolver rel data =
     concat (map (\<lambda>field. case field_errors rel data field of
                             [] \<Rightarrow> []
                           | e # _ \<Rightarrow> [(field, e)]) schema_fields)"

section \<open>The booking context\<close>

text \<open>
  \<^verbatim>\<open>BookingProvider\<close> holds its state in \<^verbatim>\<open>useState\<close> cells and provides their
  values (and their setters) to the form. \<open>BookingProvider_hooks\<close> lists the cells
  in the order of the calls, each tagged with the state it holds;
  \<open>initialContext\<close> is what the calls start from.
\<close>

record BookingContext =
  rooms :: "Room list"
  selectedRoom :: "Room option"
  bookingData :: BookingFormData
  unavailableDates :: "Date list"
  isLoading :: bool
  error :: "string option"
  success :: "string option"

datatype state_cell =
    Rooms "Room list"
  | SelectedRoom "Room option"
  | BookingData BookingFormData
  | UnavailableDates "Date list"
  | IsLoading bool
  | Error "string option"
  | Success "string option"

definition BookingProvider_hooks :: "BookingContext \<Rightarrow> state_cell list" where
  "BookingProvider_hooks c =
     [Rooms (rooms c), SelectedRoom (selectedRoom c), BookingData (bookingData c),
      UnavailableDates (unavailableDates c), IsLoading (isLoading c), Error (error c),
      Success (success c)]"

definition initialContext :: BookingContext where
  "initialContext =
     \<lparr>rooms = [], selectedRoom = None, bookingData = initialFormData,
      unavailableDates = [], isLoading = False, error = None, success = None\<rparr>"

section \<open>The remote service\<close>

text \<open>
  What the service answers is a parameter of the model. A rejected request is the
  thrown \<^verbatim>\<open>err\<close>, of which the form reads \<^verbatim>\<open>err.response?.data?.message\<close> and
  \<^verbatim>\<open>err.response?.data?.errors\<close>; each is \<open>None\<close> when the chain ends in
  \<^verbatim>\<open>undefined\<close>. The \<^verbatim>\<open>errors\<close> object is the list of its entries, in the order
  \<^verbatim>\<open>Object.entries\<close> gives them.
\<close>

record ApiError =
  response_message :: "string option"
  response_errors :: "(string \<times> string list) list option"

record ApiService =
  getUnavailableDates :: "string \<Rightarrow> ApiError + Date list"
  createBooking :: "BookingFormData \<Rightarrow> ApiError + unit"

datatype request = GetUnavailableDates string | CreateBooking BookingFormData

section \<open>The booking form\<close>

text \<open>
  The state the component works on: the context, its own \<^verbatim>\<open>apiFieldErrors\<close>, the
  \<^verbatim>\<open>errors\<close> of react-hook-form's form state, and the requests sent to the
  service so far.
\<close>

record BookingForm =
  booking :: BookingContext
  apiFieldErrors :: "(string \<times> string list) list"
  errors :: "string \<rightharpoonup> FieldError"
  requests :: "request list"

definition setSelectedRoom :: "Room option \<Rightarrow> BookingForm \<Rightarrow> BookingForm" where
  "setSelectedRoom room st = st\<lparr>booking := (booking st)\<lparr>selectedRoom := room\<rparr>\<rparr>"

definition setUnavailableDates :: "Date list \<Rightarrow> BookingForm \<Rightarrow> BookingForm" where
  "setUnavailableDates dates st = st\<lparr>booking := (booking st)\<lparr>unavailableDates := dates\<rparr>\<rparr>"

definition setIsLoading :: "bool \<Rightarrow> BookingForm \<Rightarrow> BookingForm" where
  "setIsLoading b st = st\<lparr>booking := (booking st)\<lparr>isLoading := b\<rparr>\<rparr>"

definition setError :: "string option \<Rightarrow> BookingForm \<Rightarrow> BookingForm" where
  "setError e st = st\<lparr>booking := (booking st)\<lparr>error := e\<rparr>\<rparr>"

definition setSuccess :: "string option \<Rightarrow> BookingForm \<Rightarrow> BookingForm" where
  "setSuccess m st = st\<lparr>booking := (booking st)\<lparr>success := m\<rparr>\<rparr>"

text \<open>
  \<^verbatim>\<open>setBookingData\<close> spreads the data over the previous value. Validated data
  holds every key but \<^verbatim>\<open>promo_code\<close>, which is missing when it was
  \<^verbatim>\<open>undefined\<close>; the previous promo code stays then.
\<close>

definition setBookingData :: "BookingFormData \<Rightarrow> BookingForm \<Rightarrow> BookingForm" where
  "setBookingData data st =
     st\<lparr>booking := (booking st)\<lparr>bookingData :=
          data\<lparr>promo_code := (case promo_code data of
                                 None \<Rightarrow> promo_code (bookingData (booking st))
                               | Some c \<Rightarrow> Some c)\<rparr>\<rparr>\<rparr>"

definition setApiFieldErrors :: "(string \<times> string list) list \<Rightarrow> BookingForm \<Rightarrow> BookingForm" where
  "setApiFieldErrors es st = st\<lparr>apiFieldErrors := es\<rparr>"

definition setFormError :: "string \<Rightarrow> FieldError \<Rightarrow> BookingForm \<Rightarrow> BookingForm" where
  "setFormError field e st = st\<lparr>errors := (errors st)(field \<mapsto> e)\<rparr>"

definition send :: "request \<Rightarrow> BookingForm \<Rightarrow> BookingForm" where
  "send r st = st\<lparr>requests := requests st @ [r]\<rparr>"

text \<open>\<^verbatim>\<open>message || fallback\<close>: a missing message and the empty string are both falsy.\<close>

definition or_else :: "string option \<Rightarrow> string \<Rightarrow> string" where
  "or_else m fallback = (case m of None \<Rightarrow> fallback | Some s \<Rightarrow> if s = [] then fallback else s)"

text \<open>
  \<^verbatim>\<open>field in data\<close>: the keys of the submitted data, and the properties every
  plain object inherits.
\<close>

definition own_keys :: "BookingFormData \<Rightarrow> string list" where
  "own_keys data =
     [''guest_name'', ''room_id'', ''check_in_date'', ''check_out_date''] @
     (case promo_code data of None \<Rightarrow> [] | Some _ \<Rightarrow> [''promo_code''])"

definition Object_prototype_keys :: "string list" where
  "Object_prototype_keys =
     [''constructor'', ''hasOwnProperty'', ''isPrototypeOf'', ''propertyIsEnumerable'',
      ''toLocaleString'', ''toString'', ''valueOf'', ''__proto__'', ''__defineGetter__'',
      ''__defineSetter__'', ''__lookupGetter__'', ''__lookupSetter__'']"

definition in_object :: "string \<Rightarrow> BookingFormData \<Rightarrow> bool" where
  "in_object field data = (field \<in> set (own_keys data @ Object_prototype_keys))"

text \<open>The body of the \<^verbatim>\<open>forEach\<close> over the entries of the service's field errors.\<close>

definition setApiFormError :: "BookingFormData \<Rightarrow> string \<times> string list \<Rightarrow> BookingForm \<Rightarrow> BookingForm" where
  "setApiFormError data entry st =
     (case entry of (field, messages) \<Rightarrow>
        if in_object field data \<and> length messages > 0 then
          setFormError field \<lparr>type = ''manual'', message = Some (messages ! 0)\<rparr> st
        else st)"

text \<open>
  \<^verbatim>\<open>onSubmit\<close>: the \<^verbatim>\<open>try\<close> block up to the request, then the rest of it or the
  \<^verbatim>\<open>catch\<close> block, then \<^verbatim>\<open>finally\<close>.
\<close>

definition onSubmit :: "ApiService \<Rightarrow> BookingFormData \<Rightarrow> BookingForm \<Rightarrow> BookingForm" where
  "onSubmit api data st =
     (let st1 = send (CreateBooking data)
                  (setApiFieldErrors [] (setSuccess None (setError None (setIsLoading True st))));
          st2 = (case createBooking api data of
                   Inr _ \<Rightarrow>
                     setBookingData data (setSuccess (Some ''Booking created successfully!'') st1)
                 | Inl err \<Rightarrow>
                     (case response_errors err of
                        Some apiErrors \<Rightarrow>
                          fold (setApiFormError data) apiErrors
                            (setError (Some (or_else (response_message err) ''Validation failed''))
                              (setApiFieldErrors apiErrors st1))
                      | None \<Rightarrow>
                          setError
                            (Some (or_else (response_message err)
                                     ''Failed to create booking. Please try again.'')) st1))
      in setIsLoading False st2)"

text \<open>
  \<^verbatim>\<open>handleSubmit(onSubmit)\<close> of react-hook-form: the resolver runs on the form
  values and its errors become the form's errors; the handler is called, with the
  validated values, only when there is none.
\<close>

definition handleSubmit :: "yup_release \<Rightarrow> ApiService \<Rightarrow> BookingFormData \<Rightarrow> BookingForm \<Rightarrow> BookingForm" where
  "handleSubmit rel api values st =
     (let es = yupResolver rel values in
      if es = [] then onSubmit api values (st\<lparr>errors := Map.empty\<rparr>)
      else st\<lparr>errors := map_of es\<rparr>)"

text \<open>
  The effect that runs when the watched room id (or the list of rooms) changes.
\<close>

definition fetchUnavailableDates :: "ApiService \<Rightarrow> string \<Rightarrow> BookingForm \<Rightarrow> BookingForm" where
  "fetchUnavailableDates api selectedroom_id st =
     (if selectedroom_id = [] then st
      else
        let st1 = send (GetUnavailableDates selectedroom_id) (setError None (setIsLoading True st));
            st2 = (case getUnavailableDates api selectedroom_id of
                     Inr dates \<Rightarrow>
                       setSelectedRoom
                         (find (\<lambda>room. id' room = selectedroom_id) (rooms (booking st)))
                         (setUnavailableDates dates st1)
                   | Inl err \<Rightarrow>
                       setError (Some ''Failed to load availability. Please try again.'') st1)
        in setIsLoading False st2)"

definition isDateUnavailable :: "timezone \<Rightarrow> Date list \<Rightarrow> Date \<Rightarrow> bool" where
  "isDateUnavailable tz unavailable date =
     list_ex (\<lambda>unavailableDate.
                getFullYear tz unavailableDate = getFullYear tz date \<and>
                getMonth tz unavailableDate = getMonth tz date \<and>
                getDate tz unavailableDate = getDate tz date) unavailable"

text \<open>
  The date picker disables a day that lies, as a calendar day, before its
  \<^verbatim>\<open>minDate\<close>, or that its \<^verbatim>\<open>filterDate\<close> rejects. The check-in picker is given
  the current time as \<^verbatim>\<open>minDate\<close>.
\<close>

definition isDayDisabled :: "timezone \<Rightarrow> Date \<Rightarrow> (Date \<Rightarrow> bool) \<Rightarrow> Date \<Rightarrow> bool" where
  "isDayDisabled tz minDate filterDate day =
     (Day (LocalTime tz (getTime day)) - Day (LocalTime tz (getTime minDate)) < 0 \<or>
      \<not> filterDate day)"

definition check_in_date_disabled :: "timezone \<Rightarrow> Date \<Rightarrow> Date list \<Rightarrow> Date \<Rightarrow> bool" where
  "check_in_date_disabled tz now unavailable day =
     isDayDisabled tz now (\<lambda>date. \<not> isDateUnavailable tz unavailable date) day"

section \<open>The data of the component's tests\<close>

text \<open>
  The rooms, the service and the rejection the tests of the component set up, the
  form as it is rendered with them, and the values the tests type into it (the test
  of the service's errors leaves the promo code empty).
\<close>

definition mockRooms :: "Room list" where
  "mockRooms =
     [\<lparr>id' = ''1'', name = ''Room 101 (Standard)'', price = 100,
       description = ''A comfortable standard room''\<rparr>,
      \<lparr>id' = ''2'', name = ''Room 202 (Deluxe)'', price = 200,
       description = ''A comfortable deluxe room''\<rparr>]"

definition apiError :: ApiError where
  "apiError =
     \<lparr>response_message = Some ''Validation failed'',
      response_errors =
        Some [(''guest_name'', [''Guest name is too short'']),
              (''check_in_date'', [''Invalid check-in date''])]\<rparr>"

definition mockApiService :: ApiService where
  "mockApiService = \<lparr>getUnavailableDates = (\<lambda>_. Inr []), createBooking = (\<lambda>_. Inr ())\<rparr>"

definition mockForm :: BookingForm where
  "mockForm =
     \<lparr>booking = initialContext\<lparr>rooms := mockRooms\<rparr>, apiFieldErrors = [],
      errors = Map.empty, requests = []\<rparr>"

definition today :: Date where
  "today = Date 1793664000000"

definition tomorrow :: Date where
  "tomorrow = Date 1793750400000"

definition filledForm :: BookingFormData where
  "filledForm =
     \<lparr>guest_name = ''Jo'', room_id = ''1'', check_in_date = Some today,
      check_out_date = Some tomorrow, promo_code = Some ''''\<rparr>"

section \<open>Properties of the schema\<close>

lemmas schema_defs =
  guest_name_schema_def room_id_schema_def check_in_date_schema_def check_out_date_schema_def
  promo_code_schema_def string_required_def required_def nullable_def optional_def matches_def
  min_date_def add_test_def yup_string_def yup_date_def yup_mixed_def validate_value_def
  of_nullable_def of_optional_def isAbsent_def

lemmas setter_defs =
  setSelectedRoom_def setUnavailableDates_def setIsLoading_def setError_def setSuccess_def
  setBookingData_def setApiFieldErrors_def setFormError_def send_def

lemmas mock_defs =
  mockRooms_def apiError_def mockApiService_def mockForm_def today_def tomorrow_def
  filledForm_def initialContext_def initialFormData_def

lemma of_char_upper_iff:
  "((of_char (CHR ''A'') :: nat) \<le> of_char c \<and> (of_char c :: nat) \<le> of_char (CHR ''Z'')) =
   (c \<in> set ''ABCDEFGHIJKLMNOPQRSTUVWXYZ'')"
proof -
  have "(65 \<le> n \<and> n \<le> 90) = (n \<in> of_char ` set ''ABCDEFGHIJKLMNOPQRSTUVWXYZ'')" for n :: nat
    by (simp del: One_nat_def) arith
  then have "(65 \<le> (of_char c :: nat) \<and> (of_char c :: nat) \<le> 90) =
             ((of_char c :: nat) \<in> of_char ` set ''ABCDEFGHIJKLMNOPQRSTUVWXYZ'')"
    by blast
  also have "\<dots> = (c \<in> set ''ABCDEFGHIJKLMNOPQRSTUVWXYZ'')"
    by (rule inj_image_mem_iff) (simp add: inj_on_def)
  finally show ?thesis by simp
qed

lemma of_char_digit_iff:
  "((of_char (CHR ''0'') :: nat) \<le> of_char c \<and> (of_char c :: nat) \<le> of_char (CHR ''9'')) =
   (c \<in> set ''0123456789'')"
proof -
  have "(48 \<le> n \<and> n \<le> 57) = (n \<in> of_char ` set ''0123456789'')" for n :: nat
    by (simp del: One_nat_def) arith
  then have "(48 \<le> (of_char c :: nat) \<and> (of_char c :: nat) \<le> 57) =
             ((of_char c :: nat) \<in> of_char ` set ''0123456789'')"
    by blast
  also have "\<dots> = (c \<in> set ''0123456789'')"
    by (rule inj_image_mem_iff) (simp add: inj_on_def)
  finally show ?thesis by simp
qed

lemma in_class_promo_iff:
  "in_class [(CHR ''A'', CHR ''Z''), (CHR ''0'', CHR ''9'')] c =
   (c \<in> set ''ABCDEFGHIJKLMNOPQRSTUVWXYZ'' \<or> c \<in> set ''0123456789'')"
  unfolding in_class_def list_ex_Cons_iff list_ex_Nil_iff prod.case of_char_upper_iff
    of_char_digit_iff
  by simp

lemma class_run_le: "i + class_run rs s i \<le> max i (length s)"
  unfolding class_run_def
  using length_takeWhile_le [of "in_class rs" "drop i s"] by simp

lemma class_run_full: "(class_run rs s 0 = length s) = (\<forall>c\<in>set s. in_class rs c)"
proof -
  have "(length (takeWhile P xs) = length xs) = (\<forall>x\<in>set xs. P x)" for P and xs :: "'a list"
    by (induction xs) auto
  then show ?thesis
    unfolding class_run_def by simp
qed

text \<open>The pattern matches at the start only, and only a whole string of the class.\<close>

lemma match_promo_code_regex:
  "match_here promo_code_regex s i =
   (i = 0 \<and> 6 \<le> length s \<and> length s \<le> 10 \<and>
    (\<forall>c\<in>set s. in_class [(CHR ''A'', CHR ''Z''), (CHR ''0'', CHR ''9'')] c))"
proof -
  let ?rs = "[(CHR ''A'', CHR ''Z''), (CHR ''0'', CHR ''9'')]"
  have run: "class_run ?rs s 0 \<le> length s"
    using class_run_le [of 0 ?rs s] by simp
  have "match_here promo_code_regex s i =
        (i = 0 \<and> (\<exists>k. 6 \<le> k \<and> k \<le> 10 \<and> k \<le> class_run ?rs s 0 \<and> k = length s))"
    unfolding promo_code_regex_def
    by (auto simp add: list_ex_iff)
  also have "\<dots> = (i = 0 \<and> 6 \<le> length s \<and> length s \<le> 10 \<and> class_run ?rs s 0 = length s)"
    using run by auto
  finally show ?thesis
    by (simp only: class_run_full)
qed

lemma search_promo_code_regex:
  "(search promo_code_regex s \<noteq> - 1) =
   (6 \<le> length s \<and> length s \<le> 10 \<and>
    (\<forall>c\<in>set s. c \<in> set ''ABCDEFGHIJKLMNOPQRSTUVWXYZ'' \<or> c \<in> set ''0123456789''))"
proof -
  have "(search r s \<noteq> - 1) = (\<exists>i\<in>set [0 ..< Suc (length s)]. match_here r s i)" for r
  proof (cases "find (match_here r s) [0 ..< Suc (length s)]")
    case None
    then have "\<not> (\<exists>i\<in>set [0 ..< Suc (length s)]. match_here r s i)"
      unfolding find_None_iff by blast
    moreover have "search r s = - 1"
      unfolding search_def None by simp
    ultimately show ?thesis by simp
  next
    case (Some i)
    then have "i \<in> set [0 ..< Suc (length s)] \<and> match_here r s i"
      unfolding find_Some_iff by (metis nth_mem)
    moreover have "search r s = int i"
      unfolding search_def Some by simp
    ultimately show ?thesis by auto
  qed
  then show ?thesis
    by (simp only: match_promo_code_regex in_class_promo_iff) auto
qed

text \<open>What each chain of the schema comes to, for either release of the library.\<close>

lemma guest_name_errors:
  "field_errors rel data ''guest_name'' =
   (if guest_name data = [] then [\<lparr>type = ''required'', message = Some ''Guest name is required''\<rparr>]
    else [])"
  by (cases rel) (simp_all add: field_errors_def schema_defs)

lemma room_id_errors:
  "field_errors rel data ''room_id'' =
   (if room_id data = [] then [\<lparr>type = ''required'', message = Some ''Please select a room''\<rparr>]
    else [])"
  by (cases rel) (simp_all add: field_errors_def schema_defs)

lemma check_in_date_errors:
  "field_errors rel data ''check_in_date'' =
   (case check_in_date data of
      None \<Rightarrow> (case rel of
                 Yup_0_32 \<Rightarrow> [\<lparr>type = ''required'', message = Some ''Check-in date is required''\<rparr>]
               | Yup_1 \<Rightarrow> [])
    | Some d \<Rightarrow> [])"
  by (cases rel; cases "check_in_date data") (simp_all add: field_errors_def schema_defs)

lemma check_out_date_errors:
  "field_errors rel data ''check_out_date'' =
   (case check_out_date data of
      None \<Rightarrow> (case rel of
                 Yup_0_32 \<Rightarrow> [\<lparr>type = ''required'', message = Some ''Check-out date is required''\<rparr>]
               | Yup_1 \<Rightarrow> [])
    | Some d \<Rightarrow>
        if date_ge d (of_nullable (check_in_date data)) then []
        else [\<lparr>type = ''min'', message = Some ''Check-out date must be after check-in date''\<rparr>])"
  by (cases rel; cases "check_out_date data") (simp_all add: field_errors_def schema_defs)

lemma promo_code_errors:
  "field_errors rel data ''promo_code'' =
   (case promo_code data of
      None \<Rightarrow> []
    | Some s \<Rightarrow>
        if search promo_code_regex s \<noteq> - 1 then []
        else [\<lparr>type = ''matches'',
               message = Some ''Promo code must be uppercase alphanumeric and between 6-10 characters''\<rparr>])"
  by (cases rel; cases "promo_code data") (simp_all add: field_errors_def schema_defs)

lemmas field_errors_simps =
  guest_name_errors room_id_errors check_in_date_errors check_out_date_errors promo_code_errors
  search_promo_code_regex date_ge_def of_nullable_def

lemma yupResolver_Nil_iff:
  "(yupResolver rel data = []) = (\<forall>field\<in>set schema_fields. field_errors rel data field = [])"
proof -
  have "((case es of [] \<Rightarrow> [] | e # _ \<Rightarrow> [(field, e)]) = []) = (es = [])"
    for es :: "FieldError list" and field :: string
    by (cases es) simp_all
  then show ?thesis
    unfolding yupResolver_def by simp
qed

lemma field_errors_all_iff:
  "(\<forall>field. field_errors rel values field = []) = (yupResolver rel values = [])"
proof -
  have "field_errors rel values field = []" if "field \<notin> set schema_fields" for field
    using that by (simp add: field_errors_def schema_fields_def)
  then show ?thesis
    unfolding yupResolver_Nil_iff by blast
qed

section \<open>Validation of the form\<close>

text \<open>
  C1, as amended. A non-empty promo code passes validation if and only if it is
  made of the upper-case letters A to Z and the digits 0 to 9 only and its length
  lies between 6 and 10: the pattern fixes a range of lengths, not one length.
\<close>

theorem promo_code_valid_iff:
  assumes "promo_code data = Some s" and "s \<noteq> []"
  shows "(field_errors rel data ''promo_code'' = []) =
         (6 \<le> length s \<and> length s \<le> 10 \<and>
          (\<forall>c\<in>set s. c \<in> set ''ABCDEFGHIJKLMNOPQRSTUVWXYZ'' \<or> c \<in> set ''0123456789''))"
  using assms(1) by (simp add: promo_code_errors search_promo_code_regex)

theorem promo_code_valid_iff_witness:
  "promo_code (filledForm\<lparr>promo_code := Some ''SUMMER123''\<rparr>) = Some ''SUMMER123'' \<and>
   ''SUMMER123'' \<noteq> [] \<and>
   field_errors Yup_1 (filledForm\<lparr>promo_code := Some ''SUMMER123''\<rparr>) ''promo_code'' = [] \<and>
   promo_code (filledForm\<lparr>promo_code := Some ''invalid''\<rparr>) = Some ''invalid'' \<and>
   ''invalid'' \<noteq> [] \<and>
   field_errors Yup_1 (filledForm\<lparr>promo_code := Some ''invalid''\<rparr>) ''promo_code'' \<noteq> []"
proof -
  have a: "(field_errors Yup_1 (filledForm\<lparr>promo_code := Some ''SUMMER123''\<rparr>) ''promo_code'' = []) =
           (6 \<le> length ''SUMMER123'' \<and> length ''SUMMER123'' \<le> 10 \<and>
            (\<forall>c\<in>set ''SUMMER123''.
               c \<in> set ''ABCDEFGHIJKLMNOPQRSTUVWXYZ'' \<or> c \<in> set ''0123456789''))"
    by (rule promo_code_valid_iff) simp_all
  have b: "(field_errors Yup_1 (filledForm\<lparr>promo_code := Some ''invalid''\<rparr>) ''promo_code'' = []) =
           (6 \<le> length ''invalid'' \<and> length ''invalid'' \<le> 10 \<and>
            (\<forall>c\<in>set ''invalid''.
               c \<in> set ''ABCDEFGHIJKLMNOPQRSTUVWXYZ'' \<or> c \<in> set ''0123456789''))"
    by (rule promo_code_valid_iff) simp_all
  show ?thesis
    using a b by simp
qed

text \<open>
  C1 as stated fails: codes of six and of nine characters both pass, so no single
  length is fixed.
\<close>

theorem promo_code_fixed_length_counterexample:
  "field_errors Yup_1 (filledForm\<lparr>promo_code := Some ''SUMMER''\<rparr>) ''promo_code'' = [] \<and>
   field_errors Yup_1 (filledForm\<lparr>promo_code := Some ''SUMMER123''\<rparr>) ''promo_code'' = [] \<and>
   field_errors Yup_0_32 (filledForm\<lparr>promo_code := Some ''SUMMER''\<rparr>) ''promo_code'' = [] \<and>
   field_errors Yup_0_32 (filledForm\<lparr>promo_code := Some ''SUMMER123''\<rparr>) ''promo_code'' = [] \<and>
   length ''SUMMER'' = 6 \<and> length ''SUMMER123'' = 9"
  by (simp add: promo_code_errors search_promo_code_regex)

text \<open>
  C2, on the values the component's test of the service's errors submits (every
  required field filled, the promo code left as the empty string it starts as): the
  resolver reports the promo code, so the submit handler does not run and nothing is
  posted. With the promo code omitted the same values pass.
\<close>

theorem empty_promo_code_rejected:
  "yupResolver rel filledForm =
     [(''promo_code'',
       \<lparr>type = ''matches'',
        message = Some ''Promo code must be uppercase alphanumeric and between 6-10 characters''\<rparr>)] \<and>
   requests (handleSubmit rel api filledForm st) = requests st \<and>
   yupResolver rel (filledForm\<lparr>promo_code := None\<rparr>) = []"
proof -
  have "yupResolver rel filledForm =
     [(''promo_code'',
       \<lparr>type = ''matches'',
        message = Some ''Promo code must be uppercase alphanumeric and between 6-10 characters''\<rparr>)]"
    by (simp add: yupResolver_def schema_fields_def field_errors_simps mock_defs)
  moreover from this have "requests (handleSubmit rel api filledForm st) = requests st"
    by (simp add: handleSubmit_def)
  moreover have "yupResolver rel (filledForm\<lparr>promo_code := None\<rparr>) = []"
    by (simp add: yupResolver_def schema_fields_def field_errors_simps mock_defs)
  ultimately show ?thesis
    by simp
qed

text \<open>
  C3. With both dates present, the check-out date passes if and only if its time
  is not earlier than the check-in date's, and when it fails the message is that
  the check-out date must be after the check-in date.
\<close>

theorem check_out_date_min:
  assumes "check_in_date data = Some i" and "check_out_date data = Some out"
  shows "(field_errors rel data ''check_out_date'' = []) = (getTime i \<le> getTime out) \<and>
         (getTime out < getTime i \<longrightarrow>
            map message (field_errors rel data ''check_out_date'') =
              [Some ''Check-out date must be after check-in date''])"
  using assms by (simp add: check_out_date_errors date_ge_def of_nullable_def)

theorem check_out_date_min_witness:
  "check_in_date filledForm = Some today \<and> check_out_date filledForm = Some tomorrow \<and>
   field_errors Yup_1 filledForm ''check_out_date'' = [] \<and>
   check_in_date (filledForm\<lparr>check_in_date := Some tomorrow, check_out_date := Some today\<rparr>) =
     Some tomorrow \<and>
   check_out_date (filledForm\<lparr>check_in_date := Some tomorrow, check_out_date := Some today\<rparr>) =
     Some today \<and>
   map message
     (field_errors Yup_1 (filledForm\<lparr>check_in_date := Some tomorrow, check_out_date := Some today\<rparr>)
        ''check_out_date'') =
     [Some ''Check-out date must be after check-in date'']"
proof -
  have a: "check_in_date filledForm = Some today" "check_out_date filledForm = Some tomorrow"
    by (simp_all add: filledForm_def)
  have b: "check_in_date (filledForm\<lparr>check_in_date := Some tomorrow, check_out_date := Some today\<rparr>) =
             Some tomorrow"
          "check_out_date (filledForm\<lparr>check_in_date := Some tomorrow, check_out_date := Some today\<rparr>) =
             Some today"
    by simp_all
  show ?thesis
    using check_out_date_min [OF a, of Yup_1] check_out_date_min [OF b, of Yup_1] a b
    by (simp add: today_def tomorrow_def)
qed

text \<open>
  C9. A check-in date on a calendar day before today passes validation whenever the
  other four fields do: no rule of the schema looks at the current date. Only the
  date picker, whose earliest day is the current one, disables such a day.
\<close>

theorem past_check_in_date_accepted:
  assumes "check_in_date data = Some d"
    and "Day (LocalTime tz (getTime d)) < Day (LocalTime tz (getTime now))"
    and "field_errors rel data ''guest_name'' = []"
    and "field_errors rel data ''room_id'' = []"
    and "field_errors rel data ''check_out_date'' = []"
    and "field_errors rel data ''promo_code'' = []"
  shows "yupResolver rel data = [] \<and> check_in_date_disabled tz now unavailable d"
  using assms
  by (simp add: yupResolver_Nil_iff schema_fields_def check_in_date_errors
        check_in_date_disabled_def isDayDisabled_def)

theorem past_check_in_date_accepted_witness:
  "Day (LocalTime (\<lambda>_. 0) (getTime (Date 1762041600000))) <
     Day (LocalTime (\<lambda>_. 0) (getTime today)) \<and>
   yupResolver Yup_1
     (filledForm\<lparr>check_in_date := Some (Date 1762041600000), promo_code := None\<rparr>) = [] \<and>
   check_in_date_disabled (\<lambda>_. 0) today [] (Date 1762041600000)"
proof -
  let ?data = "filledForm\<lparr>check_in_date := Some (Date 1762041600000), promo_code := None\<rparr>"
  have past: "Day (LocalTime (\<lambda>_. 0) (getTime (Date 1762041600000))) <
              Day (LocalTime (\<lambda>_. 0) (getTime today))"
    by (simp add: Day_def LocalTime_def msPerDay_def today_def)
  have "yupResolver Yup_1 ?data = [] \<and>
        check_in_date_disabled (\<lambda>_. 0) today [] (Date 1762041600000)"
    by (rule past_check_in_date_accepted [where data = ?data, OF _ past])
       (simp_all add: field_errors_simps mock_defs)
  with past show ?thesis
    by simp
qed

section \<open>Submitting the form\<close>

lemma fold_setApiFormError_frame:
  "booking (fold (setApiFormError data) es st) = booking st \<and>
   requests (fold (setApiFormError data) es st) = requests st \<and>
   apiFieldErrors (fold (setApiFormError data) es st) = apiFieldErrors st"
  by (induction es arbitrary: st)
     (simp_all add: setApiFormError_def setFormError_def split: prod.splits)

lemma fold_setApiFormError_other:
  "field \<notin> fst ` set es \<Longrightarrow> errors (fold (setApiFormError data) es st) field = errors st field"
  by (induction es arbitrary: st)
     (auto simp add: setApiFormError_def setFormError_def split: prod.splits)

text \<open>
  The keys of an object are distinct, so the error set for an entry is not
  overwritten by a later one.
\<close>

lemma fold_setApiFormError_entry:
  assumes "distinct (map fst es)" and "(field, messages) \<in> set es"
    and "in_object field data" and "messages \<noteq> []"
  shows "errors (fold (setApiFormError data) es st) field =
         Some \<lparr>type = ''manual'', message = Some (hd messages)\<rparr>"
  using assms
proof (induction es arbitrary: st)
  case Nil
  then show ?case by simp
next
  case (Cons e es)
  show ?case
  proof (cases "e = (field, messages)")
    case True
    with Cons.prems have "field \<notin> fst ` set es"
      by auto
    then have "errors (fold (setApiFormError data) es (setApiFormError data e st)) field =
               errors (setApiFormError data e st) field"
      by (rule fold_setApiFormError_other)
    moreover have "errors (setApiFormError data e st) field =
                   Some \<lparr>type = ''manual'', message = Some (hd messages)\<rparr>"
      using True Cons.prems(3,4) by (simp add: setApiFormError_def setFormError_def hd_conv_nth)
    ultimately show ?thesis
      by simp
  next
    case False
    with Cons.prems have "distinct (map fst es)" and "(field, messages) \<in> set es"
      by auto
    then show ?thesis
      using Cons.IH Cons.prems(3,4) by simp
  qed
qed

lemma in_object_own_keys: "field \<in> set (own_keys data) \<Longrightarrow> in_object field data"
  by (simp add: in_object_def)

lemma requests_onSubmit: "requests (onSubmit api data st) = requests st @ [CreateBooking data]"
  by (simp add: onSubmit_def Let_def fold_setApiFormError_frame setter_defs
      split: sum.splits option.splits)

text \<open>
  C4. When the request is rejected with an \<^verbatim>\<open>errors\<close> object, every entry of it
  whose key is a key of the submitted data and whose list of messages is not empty
  leaves the first message as that field's manual form error, and the general error
  is the response's message, or \<^verbatim>\<open>Validation failed\<close> when there is none (an
  empty message counts as none).
\<close>

theorem api_errors_mapped_to_fields:
  assumes "createBooking api data = Inl err"
    and "response_errors err = Some apiErrors"
    and "distinct (map fst apiErrors)"
  shows "(\<forall>(field, messages)\<in>set apiErrors.
            field \<in> set (own_keys data) \<and> messages \<noteq> [] \<longrightarrow>
            errors (onSubmit api data st) field =
              Some \<lparr>type = ''manual'', message = Some (hd messages)\<rparr>) \<and>
         error (booking (onSubmit api data st)) =
           Some (case response_message err of
                   None \<Rightarrow> ''Validation failed''
                 | Some m \<Rightarrow> if m = [] then ''Validation failed'' else m)"
proof -
  let ?st1 = "setError (Some (or_else (response_message err) ''Validation failed''))
                (setApiFieldErrors apiErrors
                  (send (CreateBooking data)
                    (setApiFieldErrors [] (setSuccess None (setError None (setIsLoading True st))))))"
  have run: "onSubmit api data st = setIsLoading False (fold (setApiFormError data) apiErrors ?st1)"
    using assms(1,2) by (simp add: onSubmit_def Let_def)
  have "errors (onSubmit api data st) field = Some \<lparr>type = ''manual'', message = Some (hd messages)\<rparr>"
    if "(field, messages) \<in> set apiErrors" and "field \<in> set (own_keys data)" and "messages \<noteq> []"
    for field messages
  proof -
    have "errors (fold (setApiFormError data) apiErrors ?st1) field =
          Some \<lparr>type = ''manual'', message = Some (hd messages)\<rparr>"
      using assms(3) that(1) in_object_own_keys [OF that(2)] that(3)
      by (rule fold_setApiFormError_entry)
    then show ?thesis
      by (simp add: run setIsLoading_def)
  qed
  moreover have "error (booking (onSubmit api data st)) =
                 Some (or_else (response_message err) ''Validation failed'')"
    by (simp add: run fold_setApiFormError_frame setter_defs)
  ultimately show ?thesis
    by (auto simp add: or_else_def)
qed

theorem api_errors_mapped_to_fields_witness:
  "createBooking (mockApiService\<lparr>createBooking := \<lambda>_. Inl apiError\<rparr>) filledForm = Inl apiError \<and>
   response_errors apiError =
     Some [(''guest_name'', [''Guest name is too short'']),
           (''check_in_date'', [''Invalid check-in date''])] \<and>
   errors (onSubmit (mockApiService\<lparr>createBooking := \<lambda>_. Inl apiError\<rparr>) filledForm mockForm)
     ''guest_name'' = Some \<lparr>type = ''manual'', message = Some ''Guest name is too short''\<rparr> \<and>
   errors (onSubmit (mockApiService\<lparr>createBooking := \<lambda>_. Inl apiError\<rparr>) filledForm mockForm)
     ''check_in_date'' = Some \<lparr>type = ''manual'', message = Some ''Invalid check-in date''\<rparr> \<and>
   error (booking (onSubmit (mockApiService\<lparr>createBooking := \<lambda>_. Inl apiError\<rparr>) filledForm mockForm)) =
     Some ''Validation failed''"
proof -
  let ?api = "mockApiService\<lparr>createBooking := \<lambda>_. Inl apiError\<rparr>"
  let ?es = "[(''guest_name'', [''Guest name is too short'']),
              (''check_in_date'', [''Invalid check-in date''])]"
  have a: "createBooking ?api filledForm = Inl apiError"
    by simp
  have b: "response_errors apiError = Some ?es"
    by (simp add: apiError_def)
  have c: "distinct (map fst ?es)"
    by simp
  show ?thesis
    using api_errors_mapped_to_fields [OF a b c, of mockForm] a b
    by (simp add: own_keys_def filledForm_def apiError_def)
qed

text \<open>
  C5. A submission posts the booking exactly when every field of the values passes
  the schema, and then posts those values; when a field fails, nothing is sent.
\<close>

theorem submission_validates_before_posting:
  "requests (handleSubmit rel api values st) =
   requests st @ (if \<forall>field. field_errors rel values field = [] then [CreateBooking values] else [])"
  by (simp add: field_errors_all_iff handleSubmit_def Let_def requests_onSubmit)

theorem submission_validates_before_posting_witness:
  "requests (handleSubmit Yup_1 mockApiService (filledForm\<lparr>promo_code := Some ''SUMMER123''\<rparr>) mockForm) =
     [CreateBooking (filledForm\<lparr>promo_code := Some ''SUMMER123''\<rparr>)] \<and>
   requests (handleSubmit Yup_1 mockApiService initialFormData mockForm) = []"
proof -
  have "yupResolver Yup_1 (filledForm\<lparr>promo_code := Some ''SUMMER123''\<rparr>) = []"
    by (simp add: yupResolver_def schema_fields_def field_errors_simps mock_defs)
  moreover have "yupResolver Yup_1 initialFormData \<noteq> []"
    by (simp add: yupResolver_def schema_fields_def field_errors_simps mock_defs)
  ultimately show ?thesis
    using submission_validates_before_posting
            [of Yup_1 mockApiService "filledForm\<lparr>promo_code := Some ''SUMMER123''\<rparr>" mockForm]
          submission_validates_before_posting [of Yup_1 mockApiService initialFormData mockForm]
    by (simp add: field_errors_all_iff mockForm_def)
qed

text \<open>
  C10. When the request is rejected, the booking data of the context is what it was
  and the success message is \<^verbatim>\<open>null\<close>; and whatever the outcome, the loading
  flag is false when the handler is done.
\<close>

theorem failed_submission_keeps_booking_data:
  "(createBooking api data = Inl err \<longrightarrow>
      bookingData (booking (onSubmit api data st)) = bookingData (booking st) \<and>
      success (booking (onSubmit api data st)) = None) \<and>
   isLoading (booking (onSubmit api data st)) = False"
  by (simp add: onSubmit_def Let_def fold_setApiFormError_frame setter_defs
      split: sum.splits option.splits)

theorem failed_submission_keeps_booking_data_witness:
  "createBooking (mockApiService\<lparr>createBooking := \<lambda>_. Inl apiError\<rparr>) filledForm = Inl apiError \<and>
   bookingData (booking (onSubmit (mockApiService\<lparr>createBooking := \<lambda>_. Inl apiError\<rparr>) filledForm
      (setSuccess (Some ''Booking created successfully!'') mockForm))) = initialFormData \<and>
   success (booking (onSubmit (mockApiService\<lparr>createBooking := \<lambda>_. Inl apiError\<rparr>) filledForm
      (setSuccess (Some ''Booking created successfully!'') mockForm))) = None \<and>
   isLoading (booking (onSubmit (mockApiService\<lparr>createBooking := \<lambda>_. Inl apiError\<rparr>) filledForm
      (setSuccess (Some ''Booking created successfully!'') mockForm))) = False \<and>
   isLoading (booking (onSubmit mockApiService filledForm mockForm)) = False"
  using failed_submission_keeps_booking_data
          [of "mockApiService\<lparr>createBooking := \<lambda>_. Inl apiError\<rparr>" filledForm apiError
              "setSuccess (Some ''Booking created successfully!'') mockForm"]
        failed_submission_keeps_booking_data [of mockApiService filledForm apiError mockForm]
  by (simp add: mockForm_def initialContext_def setSuccess_def)

section \<open>The dates of a room\<close>

lemma find_room:
  "(case find P xs of None \<Rightarrow> \<forall>x\<in>set xs. \<not> P x | Some x \<Rightarrow> x \<in> set xs \<and> P x)"
  by (induction xs) (auto split: option.splits)

lemma fetchUnavailableDates_requests:
  "selectedroom_id \<noteq> [] \<Longrightarrow>
   requests (fetchUnavailableDates api selectedroom_id st) =
     requests st @ [GetUnavailableDates selectedroom_id]"
  by (cases "getUnavailableDates api selectedroom_id")
     (simp_all add: fetchUnavailableDates_def Let_def setter_defs)

lemma fetchUnavailableDates_resolved:
  "selectedroom_id \<noteq> [] \<Longrightarrow> getUnavailableDates api selectedroom_id = Inr dates \<Longrightarrow>
   booking (fetchUnavailableDates api selectedroom_id st) =
     (booking st)\<lparr>isLoading := False, error := None, unavailableDates := dates,
       selectedRoom := find (\<lambda>room. id' room = selectedroom_id) (rooms (booking st))\<rparr>"
  by (simp add: fetchUnavailableDates_def Let_def setter_defs)

lemma fetchUnavailableDates_rejected:
  "selectedroom_id \<noteq> [] \<Longrightarrow> getUnavailableDates api selectedroom_id = Inl err \<Longrightarrow>
   booking (fetchUnavailableDates api selectedroom_id st) =
     (booking st)\<lparr>isLoading := False,
       error := Some ''Failed to load availability. Please try again.''\<rparr>"
  by (simp add: fetchUnavailableDates_def Let_def setter_defs)

text \<open>
  C7, as amended. With an empty room id the effect does nothing. With a non-empty
  one it requests the unavailable dates of that room; when the request resolves, its
  result becomes the unavailable dates and the selected room becomes the first room
  of the list with that id, or \<^verbatim>\<open>null\<close> when the list has none; when the request
  is rejected, the unavailable dates and the selected room stay as they were.
\<close>

theorem fetchUnavailableDates_effect:
  "(selectedroom_id = [] \<longrightarrow> fetchUnavailableDates api selectedroom_id st = st) \<and>
   (selectedroom_id \<noteq> [] \<longrightarrow>
      requests (fetchUnavailableDates api selectedroom_id st) =
        requests st @ [GetUnavailableDates selectedroom_id] \<and>
      (\<forall>dates. getUnavailableDates api selectedroom_id = Inr dates \<longrightarrow>
         unavailableDates (booking (fetchUnavailableDates api selectedroom_id st)) = dates \<and>
         selectedRoom (booking (fetchUnavailableDates api selectedroom_id st)) =
           find (\<lambda>room. id' room = selectedroom_id) (rooms (booking st)) \<and>
         (case selectedRoom (booking (fetchUnavailableDates api selectedroom_id st)) of
            None \<Rightarrow> \<forall>room\<in>set (rooms (booking st)). id' room \<noteq> selectedroom_id
          | Some room \<Rightarrow> room \<in> set (rooms (booking st)) \<and> id' room = selectedroom_id)) \<and>
      (\<forall>err. getUnavailableDates api selectedroom_id = Inl err \<longrightarrow>
         unavailableDates (booking (fetchUnavailableDates api selectedroom_id st)) =
           unavailableDates (booking st) \<and>
         selectedRoom (booking (fetchUnavailableDates api selectedroom_id st)) =
           selectedRoom (booking st)))"
proof (intro conjI impI allI)
  show "fetchUnavailableDates api selectedroom_id st = st" if "selectedroom_id = []"
    using that by (simp add: fetchUnavailableDates_def)
next
  show "requests (fetchUnavailableDates api selectedroom_id st) =
        requests st @ [GetUnavailableDates selectedroom_id]" if "selectedroom_id \<noteq> []"
    using that by (rule fetchUnavailableDates_requests)
next
  fix dates
  assume r: "selectedroom_id \<noteq> []" and ok: "getUnavailableDates api selectedroom_id = Inr dates"
  note b = fetchUnavailableDates_resolved [OF r ok, of st]
  show "unavailableDates (booking (fetchUnavailableDates api selectedroom_id st)) = dates"
    by (simp add: b)
  show "selectedRoom (booking (fetchUnavailableDates api selectedroom_id st)) =
        find (\<lambda>room. id' room = selectedroom_id) (rooms (booking st))"
    by (simp add: b)
  show "case selectedRoom (booking (fetchUnavailableDates api selectedroom_id st)) of
          None \<Rightarrow> \<forall>room\<in>set (rooms (booking st)). id' room \<noteq> selectedroom_id
        | Some room \<Rightarrow> room \<in> set (rooms (booking st)) \<and> id' room = selectedroom_id"
    using find_room [where P = "\<lambda>room. id' room = selectedroom_id" and xs = "rooms (booking st)"]
    by (simp add: b)
next
  fix err
  assume r: "selectedroom_id \<noteq> []" and ko: "getUnavailableDates api selectedroom_id = Inl err"
  note b = fetchUnavailableDates_rejected [OF r ko, of st]
  show "unavailableDates (booking (fetchUnavailableDates api selectedroom_id st)) =
        unavailableDates (booking st)"
    by (simp add: b)
  show "selectedRoom (booking (fetchUnavailableDates api selectedroom_id st)) =
        selectedRoom (booking st)"
    by (simp add: b)
qed

theorem fetchUnavailableDates_effect_witness:
  "fetchUnavailableDates mockApiService [] mockForm = mockForm \<and>
   requests (fetchUnavailableDates (mockApiService\<lparr>getUnavailableDates := \<lambda>_. Inr [today]\<rparr>)
               ''2'' mockForm) = [GetUnavailableDates ''2''] \<and>
   unavailableDates (booking (fetchUnavailableDates
      (mockApiService\<lparr>getUnavailableDates := \<lambda>_. Inr [today]\<rparr>) ''2'' mockForm)) = [today] \<and>
   selectedRoom (booking (fetchUnavailableDates
      (mockApiService\<lparr>getUnavailableDates := \<lambda>_. Inr [today]\<rparr>) ''2'' mockForm)) =
     Some \<lparr>id' = ''2'', name = ''Room 202 (Deluxe)'', price = 200,
           description = ''A comfortable deluxe room''\<rparr> \<and>
   selectedRoom (booking (fetchUnavailableDates
      (mockApiService\<lparr>getUnavailableDates := \<lambda>_. Inr [today]\<rparr>) ''3'' mockForm)) = None \<and>
   unavailableDates (booking (fetchUnavailableDates
      (mockApiService\<lparr>getUnavailableDates := \<lambda>_. Inl apiError\<rparr>) ''2'' mockForm)) = []"
proof -
  let ?ok = "mockApiService\<lparr>getUnavailableDates := \<lambda>_. Inr [today]\<rparr>"
  let ?ko = "mockApiService\<lparr>getUnavailableDates := \<lambda>_. Inl apiError\<rparr>"
  show ?thesis
    using fetchUnavailableDates_effect [of "[]" mockApiService mockForm]
          fetchUnavailableDates_effect [of "''2''" ?ok mockForm]
          fetchUnavailableDates_effect [of "''3''" ?ok mockForm]
          fetchUnavailableDates_effect [of "''2''" ?ko mockForm]
    by (simp add: mockForm_def mockRooms_def initialContext_def)
qed

text \<open>
  C7 as stated fails when the request is rejected: the room with the watched id is
  in the list, and the selected room is still \<^verbatim>\<open>null\<close> after the effect.
\<close>

theorem selected_room_not_set_counterexample:
  "requests (fetchUnavailableDates (mockApiService\<lparr>getUnavailableDates := \<lambda>_. Inl apiError\<rparr>)
               ''1'' mockForm) = [GetUnavailableDates ''1''] \<and>
   find (\<lambda>room. id' room = ''1'') (rooms (booking mockForm)) =
     Some \<lparr>id' = ''1'', name = ''Room 101 (Standard)'', price = 100,
           description = ''A comfortable standard room''\<rparr> \<and>
   selectedRoom (booking (fetchUnavailableDates
      (mockApiService\<lparr>getUnavailableDates := \<lambda>_. Inl apiError\<rparr>) ''1'' mockForm)) = None"
  by (simp add: fetchUnavailableDates_def Let_def setter_defs mockForm_def mockRooms_def
        initialContext_def)

text \<open>
  C6. A date is unavailable if and only if a stored date has its year, month and
  day of the month. The time of day plays no part, nor do the order and the
  repetitions of the stored dates: dates on the same local days give the same
  answer.
\<close>

theorem isDateUnavailable_calendar_date:
  "isDateUnavailable tz unavailable d =
     (\<exists>u\<in>set unavailable.
        getFullYear tz u = getFullYear tz d \<and> getMonth tz u = getMonth tz d \<and>
        getDate tz u = getDate tz d) \<and>
   ((\<lambda>u. Day (LocalTime tz (getTime u))) ` set unavailable' =
      (\<lambda>u. Day (LocalTime tz (getTime u))) ` set unavailable \<and>
    Day (LocalTime tz (getTime d')) = Day (LocalTime tz (getTime d)) \<longrightarrow>
    isDateUnavailable tz unavailable' d' = isDateUnavailable tz unavailable d)"
proof -
  let ?day = "\<lambda>u. Day (LocalTime tz (getTime u))"
  have same: "(getFullYear tz u = getFullYear tz x \<and> getMonth tz u = getMonth tz x \<and>
               getDate tz u = getDate tz x) =
              (civil_from_days (?day u) = civil_from_days (?day x))" for u x
    by (auto simp add: getFullYear_def getMonth_def getDate_def YearFromTime_def
          MonthFromTime_def DateFromTime_def prod_eq_iff)
  have fields: "isDateUnavailable tz us x =
                (\<exists>u\<in>set us. getFullYear tz u = getFullYear tz x \<and>
                   getMonth tz u = getMonth tz x \<and> getDate tz u = getDate tz x)" for us x
    by (simp add: isDateUnavailable_def list_ex_iff)
  have day: "isDateUnavailable tz us x =
             (\<exists>n\<in>?day ` set us. civil_from_days n = civil_from_days (?day x))" for us x
    unfolding fields same by blast
  have "isDateUnavailable tz unavailable' d' = isDateUnavailable tz unavailable d"
    if "?day ` set unavailable' = ?day ` set unavailable" and "?day d' = ?day d"
    unfolding day that ..
  with fields [of unavailable d] show ?thesis
    by blast
qed

theorem isDateUnavailable_calendar_date_witness:
  "isDateUnavailable (\<lambda>_. 3600000) [today, tomorrow] (Date 1793700000000) \<and>
   isDateUnavailable (\<lambda>_. 3600000) [Date 1793790000000, Date 1793740000000, Date 1793780000000]
     (Date 1793665000000) \<and>
   \<not> isDateUnavailable (\<lambda>_. 3600000) [today, tomorrow] (Date 1793836800000)"
proof -
  let ?day = "\<lambda>u. Day (LocalTime (\<lambda>_. 3600000) (getTime u))"
  have a: "isDateUnavailable (\<lambda>_. 3600000) [today, tomorrow] (Date 1793700000000)"
    by code_simp
  have b: "\<not> isDateUnavailable (\<lambda>_. 3600000) [today, tomorrow] (Date 1793836800000)"
    by code_simp
  have "?day ` set [Date 1793790000000, Date 1793740000000, Date 1793780000000] =
          ?day ` set [today, tomorrow] \<and>
        ?day (Date 1793665000000) = ?day (Date 1793700000000)"
    by (simp add: Day_def LocalTime_def msPerDay_def today_def tomorrow_def insert_commute)
  with isDateUnavailable_calendar_date
         [of "\<lambda>_. 3600000" "[today, tomorrow]" "Date 1793700000000"
             "[Date 1793790000000, Date 1793740000000, Date 1793780000000]" "Date 1793665000000"]
  have "isDateUnavailable (\<lambda>_. 3600000)
          [Date 1793790000000, Date 1793740000000, Date 1793780000000] (Date 1793665000000) =
        isDateUnavailable (\<lambda>_. 3600000) [today, tomorrow] (Date 1793700000000)"
    by blast
  with a b show ?thesis
    by simp
qed

section \<open>The state of the context\<close>

text \<open>
  C8. The provider holds seven cells of state: the rooms, the selected room, the
  booking data, the unavailable dates, the loading flag, the error message and the
  success message, in this order. Two contexts with the same seven are the same
  context, so there is no state beside them.
\<close>

theorem booking_context_seven_pieces:
  "length (BookingProvider_hooks c) = 7 \<and>
   BookingProvider_hooks c =
     [Rooms (rooms c), SelectedRoom (selectedRoom c), BookingData (bookingData c),
      UnavailableDates (unavailableDates c), IsLoading (isLoading c), Error (error c),
      Success (success c)] \<and>
   (BookingProvider_hooks c = BookingProvider_hooks c') = (c = c')"
  by (cases c; cases c') (auto simp add: BookingProvider_hooks_def)

end
